theory Spec2Isabelle
  imports Main
begin

section \<open>The collaborators of \<open>src/api.ts\<close>\<close>

text \<open>
  Every function of \<open>api.ts\<close> talks to two collaborators through the client handle
  \<open>supabase\<close>: the identity provider (\<open>supabase.auth.getUser()\<close>) and the record store
  (\<open>supabase.from(table)...\<close>). A query is built by chaining calls and is sent when it is
  awaited. The awaited value is a response object \<open>{ data, error, count }\<close>: a failure of the
  store comes back in the field \<open>error\<close>, which is why the functions of the file destructure
  the response and test \<open>error\<close> themselves.

  The model keeps the chain of calls as a value of type \<open>query\<close>, the store as a function from
  the query sent to the response received, and the effects of a call in a state: the queries
  sent so far, the lines written by \<open>console.error\<close>, and the number of times the clock has
  been read by \<open>new Date()\<close>.
\<close>

record user =
  user_id :: string

datatype fvalue = Str string | Bool bool | Instant int

datatype filter =
    Eq string fvalue
  | NotIsNull string
  | Gte string fvalue

datatype 'log verb =
    Select string
  | SelectCount string
  | Insert 'log

record 'log query =
  table :: string
  verb :: "'log verb"
  filters :: "filter list"

text \<open>
  A row of the table \<open>messages\<close>, as far as the dashboard reads it: the nullable column
  \<open>scam_type\<close> (\<open>None\<close> is \<open>null\<close>) and the column \<open>created_at\<close>. The store writes a
  timestamp in ISO 8601; the row carries the instant that \<open>new Date(item.created_at)\<close>
  holds for it, in milliseconds since the epoch.
\<close>

record message =
  scam_type :: "string option"
  created_at :: int

record 'e response =
  data :: "message list option"
  error :: "'e option"
  count :: "nat option"

record ('log, 'e) env =
  getUser :: "user option"
  store :: "'log query \<Rightarrow> 'e response"
  clock :: "nat \<Rightarrow> int"
  LocalTZA :: "int \<Rightarrow> bool \<Rightarrow> int"

record ('log, 'e) state =
  issued :: "'log query list"
  console :: "(string \<times> 'e) list"
  reads :: nat

text \<open>What a function of the file throws: the store's error, rethrown by \<open>throw error\<close>, or
  the \<open>RangeError\<close> of \<open>toISOString\<close> on an invalid date.\<close>

datatype 'e failure = StoreError 'e | RangeError

definition await :: "('log, 'e) env \<Rightarrow> 'log query \<Rightarrow> ('log, 'e) state
    \<Rightarrow> 'e response \<times> ('log, 'e) state" where
  "await env q s = (store env q, s\<lparr>issued := issued s @ [q]\<rparr>)"

text \<open>\<open>x || 0\<close> on a number that may be absent: \<open>null\<close>, \<open>undefined\<close> and \<open>0\<close> are falsy.\<close>

definition or_zero :: "nat option \<Rightarrow> nat" where
  "or_zero x = (case x of None \<Rightarrow> 0 | Some n \<Rightarrow> if n = 0 then 0 else n)"

text \<open>\<open>data || []\<close> on the rows of a response: an absent \<open>data\<close> is read as no rows.\<close>

definition or_empty :: "'a list option \<Rightarrow> 'a list" where
  "or_empty x = (case x of None \<Rightarrow> [] | Some rows \<Rightarrow> rows)"

section \<open>\<open>systemLogApi.createLog\<close>\<close>

definition createLog :: "('log, 'e) env \<Rightarrow> 'log \<Rightarrow> ('log, 'e) state
    \<Rightarrow> ('e failure + unit) \<times> ('log, 'e) state" where
  "createLog env log s =
     (let (r, s1) = await env \<lparr>table = ''system_logs'', verb = Insert log, filters = []\<rparr> s
      in case error r of
           Some e \<Rightarrow> (Inr (), s1\<lparr>console := console s1 @ [(''Failed to create log:'', e)]\<rparr>)
         | None \<Rightarrow> (Inr (), s1))"

section \<open>\<open>dashboardApi.getStats\<close>\<close>

record DashboardStats =
  totalMessages :: nat
  totalScams :: nat
  activeConversations :: nat
  intelligenceExtracted :: nat

definition messagesCountQuery :: "user \<Rightarrow> 'log query" where
  "messagesCountQuery u =
     \<lparr>table = ''messages'', verb = SelectCount ''*'',
      filters = [Eq ''user_id'' (Str (user_id u))]\<rparr>"

definition scamsCountQuery :: "user \<Rightarrow> 'log query" where
  "scamsCountQuery u =
     \<lparr>table = ''messages'', verb = SelectCount ''*'',
      filters = [Eq ''user_id'' (Str (user_id u)), Eq ''is_scam'' (Bool True)]\<rparr>"

definition activeConvCountQuery :: "user \<Rightarrow> 'log query" where
  "activeConvCountQuery u =
     \<lparr>table = ''conversations'', verb = SelectCount ''*'',
      filters = [Eq ''user_id'' (Str (user_id u)), Eq ''status'' (Str ''active'')]\<rparr>"

definition intelCountQuery :: "user \<Rightarrow> 'log query" where
  "intelCountQuery u =
     \<lparr>table = ''intelligence'', verb = SelectCount ''*'',
      filters = [Eq ''user_id'' (Str (user_id u))]\<rparr>"

text \<open>
  \<open>Promise.all\<close> over the four queries: each is sent, in the order of the array, and the
  four responses are joined. A response that reports a failure is a response like any
  other, so the join never rejects; the function reads \<open>count\<close> of each and nothing else.
\<close>

definition getStats :: "('log, 'e) env \<Rightarrow> ('log, 'e) state
    \<Rightarrow> ('e failure + DashboardStats) \<times> ('log, 'e) state" where
  "getStats env s =
     (case getUser env of
        None \<Rightarrow>
          (Inr \<lparr>totalMessages = 0, totalScams = 0,
                activeConversations = 0, intelligenceExtracted = 0\<rparr>, s)
      | Some u \<Rightarrow>
          (let (messagesCount, s1) = await env (messagesCountQuery u) s;
               (scamsCount, s2) = await env (scamsCountQuery u) s1;
               (activeConvCount, s3) = await env (activeConvCountQuery u) s2;
               (intelCount, s4) = await env (intelCountQuery u) s3
           in (Inr \<lparr>totalMessages = or_zero (count messagesCount),
                    totalScams = or_zero (count scamsCount),
                    activeConversations = or_zero (count activeConvCount),
                    intelligenceExtracted = or_zero (count intelCount)\<rparr>, s4)))"

section \<open>\<open>dashboardApi.getScamTypeDistribution\<close>\<close>

subsection \<open>The object that counts\<close>

text \<open>
  \<open>distribution\<close> is an ordinary object, created by \<open>{}\<close>, whose prototype is
  \<open>Object.prototype\<close>. Three traits of such an object bear on the function.

  \<^item> Reading \<open>distribution[k]\<close> yields the own property \<open>k\<close> when there is one, and
    otherwise what \<open>Object.prototype\<close> holds under \<open>k\<close>: a function for its method
    names, the prototype object itself for \<open>__proto__\<close>, and \<open>undefined\<close> for any
    other name. The standard names of \<open>Object.prototype\<close> are listed in
    \<open>prototypeNames\<close>.
  \<^item> Writing \<open>distribution[k] = v\<close> replaces the value of the own property \<open>k\<close>, or
    creates it after the properties that exist. Under \<open>__proto__\<close> the write goes to
    the setter of \<open>Object.prototype\<close>, which ignores a value that is neither an
    object nor \<open>null\<close>: no own property comes to exist.
  \<^item> \<open>Object.entries\<close> lists first the own keys that are array indices (the decimal
    numerals, without leading zeros, of the numbers below \<open>2^32 - 1\<close>), in ascending
    numeric order, and then the other keys in the order of their creation.

  The value held under a key is a number, or a string: for a value \<open>x\<close> that is neither
  a number nor falsy, \<open>(x || 0) + 1\<close> is the text of \<open>x\<close> followed by \<open>1\<close>. The model
  keeps of such a string that it is one, \<open>Text\<close>, and not its characters, which depend
  on the host.
\<close>

datatype tally = Number nat | Text

datatype property = Undefined | Own tally | Inherited

definition prototypeNames :: "string list" where
  "prototypeNames =
     [''constructor'', ''__defineGetter__'', ''__defineSetter__'', ''hasOwnProperty'',
      ''__lookupGetter__'', ''__lookupSetter__'', ''isPrototypeOf'', ''propertyIsEnumerable'',
      ''toString'', ''valueOf'', ''__proto__'', ''toLocaleString'']"

definition getProperty :: "(string \<times> tally) list \<Rightarrow> string \<Rightarrow> property" where
  "getProperty obj k =
     (case map_of obj k of
        Some v \<Rightarrow> Own v
      | None \<Rightarrow> if k \<in> set prototypeNames then Inherited else Undefined)"

fun assign :: "('k \<times> 'v) list \<Rightarrow> 'k \<Rightarrow> 'v \<Rightarrow> ('k \<times> 'v) list" where
  "assign [] k v = [(k, v)]"
| "assign ((k', v') # kvs) k v =
     (if k' = k then (k', v) # kvs else (k', v') # assign kvs k v)"

definition setProperty :: "(string \<times> tally) list \<Rightarrow> string \<Rightarrow> tally
    \<Rightarrow> (string \<times> tally) list" where
  "setProperty obj k v = (if k = ''__proto__'' then obj else assign obj k v)"

text \<open>\<open>(x || 0) + 1\<close> on what has been read: \<open>undefined\<close> and \<open>0\<close> are falsy, a string
  that ends in \<open>1\<close> and an object are not.\<close>

definition plusOne :: "property \<Rightarrow> tally" where
  "plusOne x =
     (case x of
        Undefined \<Rightarrow> Number 1
      | Own (Number n) \<Rightarrow> Number ((if n = 0 then 0 else n) + 1)
      | Own Text \<Rightarrow> Text
      | Inherited \<Rightarrow> Text)"

definition isDigit :: "char \<Rightarrow> bool" where
  "isDigit c = (c \<in> set ''0123456789'')"

definition toNumber :: "string \<Rightarrow> nat" where
  "toNumber k = foldl (\<lambda>n c. 10 * n + (of_char c - 48)) 0 k"

definition arrayIndex :: "string \<Rightarrow> nat option" where
  "arrayIndex k =
     (case k of
        [] \<Rightarrow> None
      | c # cs \<Rightarrow>
          if list_all isDigit k \<and> (c = CHR ''0'' \<longrightarrow> cs = []) \<and> toNumber k < 4294967295
          then Some (toNumber k) else None)"

definition entries :: "(string \<times> tally) list \<Rightarrow> (string \<times> tally) list" where
  "entries obj =
     sort_key (\<lambda>(k, v). the (arrayIndex k)) (filter (\<lambda>(k, v). arrayIndex k \<noteq> None) obj)
     @ filter (\<lambda>(k, v). arrayIndex k = None) obj"

subsection \<open>The aggregation\<close>

text \<open>\<open>if (item.scam_type)\<close>: \<open>null\<close> and the empty string are falsy.\<close>

definition truthy :: "string option \<Rightarrow> bool" where
  "truthy l = (case l of None \<Rightarrow> False | Some x \<Rightarrow> x \<noteq> [])"

definition countType :: "(string \<times> tally) list \<Rightarrow> message \<Rightarrow> (string \<times> tally) list" where
  "countType distribution item =
     (if truthy (scam_type item)
      then setProperty distribution (the (scam_type item))
             (plusOne (getProperty distribution (the (scam_type item))))
      else distribution)"

record ScamTypeDistribution =
  dist_type :: string
  dist_count :: tally

definition scamTypeQuery :: "user \<Rightarrow> 'log query" where
  "scamTypeQuery u =
     \<lparr>table = ''messages'', verb = Select ''scam_type'',
      filters = [Eq ''user_id'' (Str (user_id u)), Eq ''is_scam'' (Bool True),
                 NotIsNull ''scam_type'']\<rparr>"

definition getScamTypeDistribution :: "('log, 'e) env \<Rightarrow> ('log, 'e) state
    \<Rightarrow> ('e failure + ScamTypeDistribution list) \<times> ('log, 'e) state" where
  "getScamTypeDistribution env s =
     (case getUser env of
        None \<Rightarrow> (Inr [], s)
      | Some u \<Rightarrow>
          (let (r, s1) = await env (scamTypeQuery u) s
           in case error r of
                Some e \<Rightarrow> (Inl (StoreError e), s1)
              | None \<Rightarrow>
                  (let distribution =
                         foldl countType [] (or_empty (data r))
                   in (Inr (map (\<lambda>(type, n). \<lparr>dist_type = type, dist_count = n\<rparr>)
                              (entries distribution)), s1))))"

section \<open>\<open>dashboardApi.getDailyDetections\<close>\<close>

subsection \<open>Dates\<close>

text \<open>
  A \<open>Date\<close> holds a time value: a whole number of milliseconds since the epoch, in UTC, of
  absolute value at most \<open>8.64e15\<close>, or \<open>NaN\<close> (an invalid date), here \<open>None\<close>. The
  operations follow the ECMAScript definitions. \<open>LocalTZA env t True\<close> is the offset of the
  local time zone at the UTC instant \<open>t\<close>, and \<open>LocalTZA env t False\<close> the offset that
  applies to the local time \<open>t\<close>; both come from the host.
\<close>

definition msPerDay :: int where
  "msPerDay = 86400000"

definition maxTime :: int where
  "maxTime = 8640000000000000"

definition TimeClip :: "int \<Rightarrow> int option" where
  "TimeClip t = (if \<bar>t\<bar> > maxTime then None else Some t)"

definition Day :: "int \<Rightarrow> int" where
  "Day t = t div msPerDay"

definition TimeWithinDay :: "int \<Rightarrow> int" where
  "TimeWithinDay t = t mod msPerDay"

definition LocalTime :: "('log, 'e) env \<Rightarrow> int \<Rightarrow> int" where
  "LocalTime env t = t + LocalTZA env t True"

definition UTC :: "('log, 'e) env \<Rightarrow> int \<Rightarrow> int" where
  "UTC env t = t - LocalTZA env t False"

text \<open>\<open>new Date()\<close> reads the clock: the \<open>k\<close>-th reading of a call is \<open>clock env k\<close>.\<close>

definition new_Date :: "('log, 'e) env \<Rightarrow> ('log, 'e) state \<Rightarrow> int \<times> ('log, 'e) state" where
  "new_Date env s = (clock env (reads s), s\<lparr>reads := Suc (reads s)\<rparr>)"

text \<open>
  \<open>d.setDate(d.getDate() - n)\<close> on a valid date of time value \<open>t\<close>. With \<open>lt\<close> the local
  time of \<open>t\<close>, \<open>getDate()\<close> is the day of the month of \<open>lt\<close>, and \<open>setDate(dt)\<close> sets the
  time value to \<open>TimeClip(UTC(MakeDate(MakeDay(year lt, month lt, dt), TimeWithinDay lt)))\<close>,
  where \<open>MakeDay(y, m, dt)\<close> is the day number of the first of the month plus \<open>dt - 1\<close>.
  For \<open>dt = getDate() - n\<close> that day number is \<open>Day lt - n\<close>, whatever the month: a day of
  the month below 1 runs back into the months before.
\<close>

definition setDate_back :: "('log, 'e) env \<Rightarrow> int \<Rightarrow> int \<Rightarrow> int option" where
  "setDate_back env t n =
     (let lt = LocalTime env t;
          newDate = (Day lt - n) * msPerDay + TimeWithinDay lt
      in TimeClip (UTC env newDate))"

text \<open>
  \<open>d.toISOString()\<close> throws a \<open>RangeError\<close> on an invalid date and otherwise writes the UTC
  date and time of the time value; \<open>.split('T')[0]\<close> keeps the date, \<open>YYYY-MM-DD\<close>. The
  date string and the UTC day number \<open>Day t\<close> determine each other, and the model uses the
  day number as the date: the date after \<open>d\<close> is \<open>d + 1\<close>.
\<close>

definition toISOString :: "int option \<Rightarrow> 'e failure + int" where
  "toISOString d = (case d of None \<Rightarrow> Inl RangeError | Some t \<Rightarrow> Inr t)"

definition isoDate :: "int option \<Rightarrow> 'e failure + int" where
  "isoDate d = (case d of None \<Rightarrow> Inl RangeError | Some t \<Rightarrow> Inr (Day t))"

subsection \<open>The aggregation\<close>

record DailyDetection =
  date :: int
  detections :: nat

definition dailyQuery :: "user \<Rightarrow> int \<Rightarrow> 'log query" where
  "dailyQuery u startDate =
     \<lparr>table = ''messages'', verb = Select ''created_at'',
      filters = [Eq ''user_id'' (Str (user_id u)), Eq ''is_scam'' (Bool True),
                 Gte ''created_at'' (Instant startDate)]\<rparr>"

text \<open>
  \<open>detectionsByDate\<close> is an ordinary object as well. Its keys are date strings, which
  contain \<open>-\<close>: none is an array index or a name of \<open>Object.prototype\<close>, and the object
  is read by key only, never listed. A map from dates to numbers is a faithful model.
\<close>

definition countDate :: "(int \<rightharpoonup> nat) \<Rightarrow> message \<Rightarrow> (int \<rightharpoonup> nat)" where
  "countDate detectionsByDate item =
     (let d = Day (created_at item)
      in detectionsByDate(d \<mapsto> or_zero (detectionsByDate d) + 1))"

text \<open>The loop \<open>for (let i = days - 1; i >= 0; i--)\<close>, with \<open>result\<close> as accumulator.\<close>

function fill :: "('log, 'e) env \<Rightarrow> (int \<rightharpoonup> nat) \<Rightarrow> int \<Rightarrow> DailyDetection list
    \<Rightarrow> ('log, 'e) state \<Rightarrow> ('e failure + DailyDetection list) \<times> ('log, 'e) state" where
  "fill env detectionsByDate i result s =
     (if i \<ge> 0 then
        (let (t, s1) = new_Date env s
         in case isoDate (setDate_back env t i) of
              Inl err \<Rightarrow> (Inl err, s1)
            | Inr dateStr \<Rightarrow>
                fill env detectionsByDate (i - 1)
                  (result @ [\<lparr>date = dateStr,
                              detections = or_zero (detectionsByDate dateStr)\<rparr>]) s1)
      else (Inr result, s))"
  by pat_completeness auto
termination
  by (relation "measure (\<lambda>(env, m, i, result, s). nat (i + 1))") (auto simp: new_Date_def)

declare fill.simps [simp del]

text \<open>The parameter \<open>days\<close> is a whole number, of either sign; a call without an argument
  is the call with 7.\<close>

definition getDailyDetections :: "('log, 'e) env \<Rightarrow> int \<Rightarrow> ('log, 'e) state
    \<Rightarrow> ('e failure + DailyDetection list) \<times> ('log, 'e) state" where
  "getDailyDetections env days s =
     (case getUser env of
        None \<Rightarrow> (Inr [], s)
      | Some u \<Rightarrow>
          (let (t, s1) = new_Date env s
           in case toISOString (setDate_back env t days) of
                Inl err \<Rightarrow> (Inl err, s1)
              | Inr startDate \<Rightarrow>
                  (let (r, s2) = await env (dailyQuery u startDate) s1
                   in case error r of
                        Some e \<Rightarrow> (Inl (StoreError e), s2)
                      | None \<Rightarrow>
                          fill env (foldl countDate Map.empty (or_empty (data r)))
                            (days - 1) [] s2)))"

section \<open>Notions of the specification\<close>

text \<open>
  The labels of the labelled rows, in the order of the rows: a row is labelled when its
  \<open>scam_type\<close> is not \<open>null\<close>. Among them, the labels that are not the empty string.
\<close>

fun rowLabels :: "message list \<Rightarrow> string list" where
  "rowLabels [] = []"
| "rowLabels (r # rows) =
     (case scam_type r of None \<Rightarrow> rowLabels rows | Some l \<Rightarrow> l # rowLabels rows)"

definition nonEmptyLabels :: "message list \<Rightarrow> string list" where
  "nonEmptyLabels rows = filter (\<lambda>l. l \<noteq> '''') (rowLabels rows)"

text \<open>The distinct elements of a list, each at the place of its first occurrence.\<close>

fun firstOccurrences :: "'a list \<Rightarrow> 'a list" where
  "firstOccurrences [] = []"
| "firstOccurrences (x # xs) = x # filter (\<lambda>y. y \<noteq> x) (firstOccurrences xs)"

text \<open>What C4 promises for a sequence of labels: one pair per distinct label, in the
  order of first occurrence, with the number of occurrences.\<close>

definition grouped :: "string list \<Rightarrow> ScamTypeDistribution list" where
  "grouped ls =
     map (\<lambda>l. \<lparr>dist_type = l, dist_count = Number (count_list ls l)\<rparr>) (firstOccurrences ls)"

text \<open>A plain name: a label that is neither an array index nor a name of
  \<open>Object.prototype\<close>.\<close>

definition plain :: "string \<Rightarrow> bool" where
  "plain l = (arrayIndex l = None \<and> l \<notin> set prototypeNames)"

text \<open>The events of a UTC date among the rows retrieved.\<close>

definition eventsOn :: "int \<Rightarrow> message list \<Rightarrow> message list" where
  "eventsOn d rows = filter (\<lambda>r. Day (created_at r) = d) rows"

text \<open>
  The local zone keeps the offset \<open>off\<close> from the instant \<open>lo\<close> up to the instant \<open>hi\<close>,
  \<open>hi\<close> excluded: the offset at a UTC instant of that stretch, and the offset that
  applies to the local time of such an instant, are both \<open>off\<close>.
\<close>

definition steadyZone :: "('log, 'e) env \<Rightarrow> int \<Rightarrow> int \<Rightarrow> int \<Rightarrow> bool" where
  "steadyZone env off lo hi =
     (\<forall>x. lo \<le> x \<and> x < hi \<longrightarrow> LocalTZA env x True = off \<and> LocalTZA env (x + off) False = off)"

text \<open>The body of \<open>countType\<close> on a label that counts, and the bucket the loop of
  \<open>getDailyDetections\<close> pushes for a date; both abbreviate the proofs.\<close>

definition countLabel :: "(string \<times> tally) list \<Rightarrow> string \<Rightarrow> (string \<times> tally) list" where
  "countLabel d l = setProperty d l (plusOne (getProperty d l))"

definition bucket :: "(int \<rightharpoonup> nat) \<Rightarrow> int \<Rightarrow> DailyDetection" where
  "bucket m d = \<lparr>date = d, detections = or_zero (m d)\<rparr>"

section \<open>Sessions used as examples\<close>

text \<open>
  A host whose clock stands at \<open>now\<close> for the length of a call and whose time zone keeps
  the offset \<open>off\<close> from UTC, a first state in which nothing has happened yet, and a
  signed-in user.
\<close>

definition host :: "user option \<Rightarrow> (string query \<Rightarrow> string response) \<Rightarrow> int \<Rightarrow> int
    \<Rightarrow> (string, string) env" where
  "host caller st now off =
     \<lparr>getUser = caller, store = st, clock = (\<lambda>k. now), LocalTZA = (\<lambda>t isUTC. off)\<rparr>"

definition start :: "(string, string) state" where
  "start = \<lparr>issued = [], console = [], reads = 0\<rparr>"

definition alice :: user where
  "alice = \<lparr>user_id = ''alice''\<rparr>"

text \<open>A store that fails every query, and one that holds the given rows.\<close>

definition down :: "string query \<Rightarrow> string response" where
  "down q = \<lparr>data = None, error = Some ''connection lost'', count = None\<rparr>"

definition holding :: "message list \<Rightarrow> string query \<Rightarrow> string response" where
  "holding rows q = \<lparr>data = Some rows, error = None, count = None\<rparr>"

text \<open>
  A store that tells the count queries apart by what they ask: it counts 12 rows of
  \<open>messages\<close> whose \<open>user_id\<close> is \<open>alice\<close>, 5 of them with \<open>is_scam\<close> true, and 3 rows
  of \<open>intelligence\<close> of \<open>alice\<close>; to any other query, that of the active conversations
  among them, it answers with an absent count.
\<close>

definition counting :: "string query \<Rightarrow> string response" where
  "counting q =
     \<lparr>data = None, error = None,
      count =
        (if table q = ''messages'' \<and> filters q = [Eq ''user_id'' (Str ''alice'')]
         then Some 12
         else if table q = ''messages''
                 \<and> filters q = [Eq ''user_id'' (Str ''alice''), Eq ''is_scam'' (Bool True)]
         then Some 5
         else if table q = ''intelligence'' \<and> filters q = [Eq ''user_id'' (Str ''alice'')]
         then Some 3
         else None)\<rparr>"

text \<open>The same store when the count of all messages fails.\<close>

definition failingTotal :: "string query \<Rightarrow> string response" where
  "failingTotal q = (if q = messagesCountQuery alice then down q else counting q)"

text \<open>
  Instants of the examples, in milliseconds since the epoch: 15 January 2024 is day 19737.
  \<open>now\<close> is 10:00 UTC on that day, in a zone at UTC+5:30.
\<close>

definition now :: int where
  "now = 1705312800000"

definition ist :: int where
  "ist = 19800000"

text \<open>
  A scam message of kind phishing created at the instant \<open>t\<close>, and three sets of rows:
  one event of 13 January, 20:00 UTC, and one of 15 January, 08:00 UTC; the same with an
  event of 12 January, 20:00 UTC, before them; a single event of 14 January, 18:00 UTC.
  \<open>dashboard rows\<close> is the session of \<open>alice\<close> at \<open>now\<close> over a store that holds
  \<open>rows\<close>. \<open>labelled l\<close> is a scam message that carries the label \<open>l\<close>.
\<close>

definition phishing :: "int \<Rightarrow> message" where
  "phishing t = \<lparr>scam_type = Some ''phishing'', created_at = t\<rparr>"

definition labelled :: "string \<Rightarrow> message" where
  "labelled l = \<lparr>scam_type = Some l, created_at = 1705312800000\<rparr>"

definition twoEvents :: "message list" where
  "twoEvents = [phishing 1705176000000, phishing 1705305600000]"

definition threeEvents :: "message list" where
  "threeEvents = [phishing 1705089600000, phishing 1705176000000, phishing 1705305600000]"

definition lateEvent :: "message list" where
  "lateEvent = [phishing 1705255200000]"

definition dashboard :: "message list \<Rightarrow> (string, string) env" where
  "dashboard rows = host (Some alice) (holding rows) now ist"

text \<open>
  A zone with summer time: one hour ahead of UTC until 31 March 2024, 01:00 UTC, and two
  hours from then on. The local clocks go from 02:00 to 03:00; a local time before
  03:00 of that day, the skipped hour included, is read with the offset of before the
  change. \<open>night\<close> is 23:30 UTC on 31 March (day 19813), which is 01:30 on 1 April in
  that zone. \<open>summerHost rows\<close> is the session of \<open>alice\<close> at \<open>night\<close> in that zone,
  and \<open>noonEvent\<close> a single event of 31 March, 12:00 UTC.
\<close>

definition summerTime :: "int \<Rightarrow> bool \<Rightarrow> int" where
  "summerTime t isUTC =
     (if isUTC then (if t < 1711846800000 then 3600000 else 7200000)
      else (if t < 1711854000000 then 3600000 else 7200000))"

definition night :: int where
  "night = 1711927800000"

definition summerHost :: "message list \<Rightarrow> (string, string) env" where
  "summerHost rows =
     \<lparr>getUser = Some alice, store = holding rows, clock = (\<lambda>k. night),
      LocalTZA = summerTime\<rparr>"

definition noonEvent :: "message list" where
  "noonEvent = [phishing 1711886400000]"

text \<open>\<open>winterHost rows\<close> is the session of \<open>alice\<close> in the same zone at \<open>now\<close>, in
  January, weeks before the change of clocks.\<close>

definition winterHost :: "message list \<Rightarrow> (string, string) env" where
  "winterHost rows =
     \<lparr>getUser = Some alice, store = holding rows, clock = (\<lambda>k. now),
      LocalTZA = summerTime\<rparr>"

section \<open>Basic facts\<close>

lemma or_zero_Some [simp]: "or_zero (Some n) = n"
  by (simp add: or_zero_def)

lemma or_zero_None [simp]: "or_zero None = 0"
  by (simp add: or_zero_def)

lemma await_eq [simp]: "await env q s = (store env q, s\<lparr>issued := issued s @ [q]\<rparr>)"
  by (simp add: await_def)

lemmas example_defs =
  host_def start_def alice_def down_def holding_def counting_def failingTotal_def
  now_def ist_def night_def summerTime_def summerHost_def noonEvent_def winterHost_def
  phishing_def labelled_def twoEvents_def threeEvents_def lateEvent_def dashboard_def

lemmas date_defs =
  setDate_back_def LocalTime_def UTC_def Day_def TimeWithinDay_def TimeClip_def
  msPerDay_def maxTime_def new_Date_def toISOString_def isoDate_def

lemmas query_defs =
  messagesCountQuery_def scamsCountQuery_def activeConvCountQuery_def intelCountQuery_def
  scamTypeQuery_def dailyQuery_def

section \<open>\<open>getStats\<close>\<close>

text \<open>
  C5. Without an identified caller \<open>getStats\<close> returns the stats record with the four
  counts at zero; it throws nothing and leaves the state as it found it, so no query has
  been sent to the store.
\<close>

theorem getStats_no_caller:
  "getUser env = None \<Longrightarrow>
   getStats env s =
     (Inr \<lparr>totalMessages = 0, totalScams = 0, activeConversations = 0,
           intelligenceExtracted = 0\<rparr>, s)"
  by (simp add: getStats_def)

theorem getStats_no_caller_witness:
  "getUser (host None down now ist) = None \<and>
   getStats (host None down now ist) start =
     (Inr \<lparr>totalMessages = 0, totalScams = 0, activeConversations = 0,
           intelligenceExtracted = 0\<rparr>, start) \<and>
   issued start = []"
  using getStats_no_caller [of "host None down now ist" start]
  by (simp add: host_def start_def)

text \<open>
  C6. With an identified caller \<open>getStats\<close> sends four count queries and no other,
  each with the filter that \<open>user_id\<close> is the caller's id: the count of the rows of
  \<open>messages\<close>; the count of the rows of \<open>messages\<close> whose \<open>is_scam\<close> is true; the
  count of the rows of \<open>conversations\<close> whose \<open>status\<close> is \<open>active\<close>; the count of
  the rows of \<open>intelligence\<close>. It returns the four counts of the store's responses
  to these queries, a count being read as 0 when the response carries none. The
  statement needs no hypothesis on the responses, so it covers the call in which no
  query fails.
\<close>

theorem getStats_counts:
  "getUser env = Some u \<Longrightarrow>
   getStats env s =
     (Inr \<lparr>totalMessages = or_zero (count (store env
              \<lparr>table = ''messages'', verb = SelectCount ''*'',
               filters = [Eq ''user_id'' (Str (user_id u))]\<rparr>)),
           totalScams = or_zero (count (store env
              \<lparr>table = ''messages'', verb = SelectCount ''*'',
               filters = [Eq ''user_id'' (Str (user_id u)), Eq ''is_scam'' (Bool True)]\<rparr>)),
           activeConversations = or_zero (count (store env
              \<lparr>table = ''conversations'', verb = SelectCount ''*'',
               filters = [Eq ''user_id'' (Str (user_id u)),
                          Eq ''status'' (Str ''active'')]\<rparr>)),
           intelligenceExtracted = or_zero (count (store env
              \<lparr>table = ''intelligence'', verb = SelectCount ''*'',
               filters = [Eq ''user_id'' (Str (user_id u))]\<rparr>))\<rparr>,
      s\<lparr>issued := issued s @
          [\<lparr>table = ''messages'', verb = SelectCount ''*'',
            filters = [Eq ''user_id'' (Str (user_id u))]\<rparr>,
           \<lparr>table = ''messages'', verb = SelectCount ''*'',
            filters = [Eq ''user_id'' (Str (user_id u)), Eq ''is_scam'' (Bool True)]\<rparr>,
           \<lparr>table = ''conversations'', verb = SelectCount ''*'',
            filters = [Eq ''user_id'' (Str (user_id u)), Eq ''status'' (Str ''active'')]\<rparr>,
           \<lparr>table = ''intelligence'', verb = SelectCount ''*'',
            filters = [Eq ''user_id'' (Str (user_id u))]\<rparr>]\<rparr>)
   \<and> or_zero None = 0 \<and> (\<forall>n. or_zero (Some n) = n)"
  by (simp add: getStats_def query_defs)

theorem getStats_counts_witness:
  "getUser (host (Some alice) counting now ist) = Some alice \<and>
   count (counting \<lparr>table = ''conversations'', verb = SelectCount ''*'',
            filters = [Eq ''user_id'' (Str ''alice''), Eq ''status'' (Str ''active'')]\<rparr>) = None \<and>
   fst (getStats (host (Some alice) counting now ist) start) =
     Inr \<lparr>totalMessages = 12, totalScams = 5, activeConversations = 0,
          intelligenceExtracted = 3\<rparr>"
  using getStats_counts [of "host (Some alice) counting now ist" alice start]
  by (simp add: host_def alice_def counting_def)

text \<open>
  C2 says that a count query that fails makes the whole of \<open>getStats\<close> fail. The code
  reads \<open>count\<close> of the four responses and never their \<open>error\<close>: when the count of all
  messages fails, the call returns a stats record, with 0 in the place of the count that
  failed and the other three counts beside it.
\<close>

theorem getStats_failed_count_returns:
  "error (failingTotal (messagesCountQuery alice)) = Some ''connection lost'' \<and>
   fst (getStats (host (Some alice) failingTotal now ist) start) =
     Inr \<lparr>totalMessages = 0, totalScams = 5, activeConversations = 0,
          intelligenceExtracted = 3\<rparr>"
  by (simp add: getStats_def example_defs query_defs)

section \<open>\<open>createLog\<close>\<close>

text \<open>
  C8. \<open>createLog\<close> returns normally for every log record and every answer of the store:
  it sends the insert once, and when the insert fails the error goes to
  \<open>console.error\<close> and nowhere else.
\<close>

theorem createLog_swallows_failure:
  "fst (createLog env log s) = Inr () \<and>
   issued (snd (createLog env log s)) =
     issued s @ [\<lparr>table = ''system_logs'', verb = Insert log, filters = []\<rparr>] \<and>
   (\<forall>e. error (store env \<lparr>table = ''system_logs'', verb = Insert log, filters = []\<rparr>) = Some e
        \<longrightarrow> console (snd (createLog env log s)) = console s @ [(''Failed to create log:'', e)])"
  by (simp add: createLog_def split: option.splits)

theorem createLog_swallows_failure_witness:
  "error (store (host None down now ist)
           \<lparr>table = ''system_logs'', verb = Insert ''scan started'', filters = []\<rparr>) =
     Some ''connection lost'' \<and>
   fst (createLog (host None down now ist) ''scan started'' start) = Inr () \<and>
   console (snd (createLog (host None down now ist) ''scan started'' start)) =
     [(''Failed to create log:'', ''connection lost'')]"
  using createLog_swallows_failure [of "host None down now ist" "''scan started''" start]
  by (simp add: host_def start_def down_def)

section \<open>\<open>getScamTypeDistribution\<close>\<close>

subsection \<open>Lists of first occurrences and objects\<close>

lemma set_firstOccurrences [simp]: "set (firstOccurrences xs) = set xs"
  by (induction xs) auto

lemma distinct_firstOccurrences [simp]: "distinct (firstOccurrences xs)"
  by (induction xs) auto

lemma firstOccurrences_snoc:
  "firstOccurrences (xs @ [x]) =
     (if x \<in> set xs then firstOccurrences xs else firstOccurrences xs @ [x])"
  by (induction xs) auto

lemma map_of_tabulate:
  "map_of (map (\<lambda>k. (k, f k)) ks) l = (if l \<in> set ks then Some (f l) else None)"
  by (induction ks) auto

lemma assign_tabulate:
  "distinct ks \<Longrightarrow>
   assign (map (\<lambda>k. (k, f k)) ks) l v =
     (if l \<in> set ks then map (\<lambda>k. (k, if k = l then v else f k)) ks
      else map (\<lambda>k. (k, f k)) ks @ [(l, v)])"
  by (induction ks) auto

lemma keys_assign: "(a, b) \<in> set (assign obj k v) \<Longrightarrow> a = k \<or> a \<in> fst ` set obj"
  by (induction obj) (force split: if_splits)+

lemma keys_setProperty:
  "(a, b) \<in> set (setProperty obj k v) \<Longrightarrow> a = k \<or> a \<in> fst ` set obj"
  by (cases "k = ''__proto__''") (force simp: setProperty_def dest: keys_assign)+

lemma set_entries: "set (entries obj) = set obj"
  by (auto simp: entries_def)

lemma entries_no_index:
  assumes "\<forall>k \<in> fst ` set obj. arrayIndex k = None"
  shows "entries obj = obj"
proof -
  have "filter (\<lambda>(k, v). arrayIndex k \<noteq> None) obj = []"
    using assms by (auto simp: filter_empty_conv)
  moreover have "filter (\<lambda>(k, v). arrayIndex k = None) obj = obj"
    using assms by (auto simp: filter_id_conv)
  ultimately show ?thesis by (simp add: entries_def)
qed

subsection \<open>The rows that count\<close>

lemma countType_falsy:
  "scam_type r = None \<or> scam_type r = Some '''' \<Longrightarrow> countType d r = d"
  by (auto simp: countType_def truthy_def)

lemma countType_label:
  "scam_type r = Some l \<Longrightarrow> l \<noteq> '''' \<Longrightarrow> countType d r = countLabel d l"
  by (simp add: countType_def truthy_def countLabel_def)

lemma foldl_countType_labels:
  "foldl countType d rows = foldl countLabel d (nonEmptyLabels rows)"
proof (induction rows arbitrary: d)
  case Nil
  show ?case by (simp add: nonEmptyLabels_def)
next
  case (Cons r rows)
  show ?case
  proof (cases "scam_type r")
    case None
    then show ?thesis
      using Cons.IH [of d] by (simp add: countType_falsy nonEmptyLabels_def)
  next
    case (Some l)
    then show ?thesis
      using Cons.IH [of d] Cons.IH [of "countLabel d l"]
      by (cases "l = ''''") (simp_all add: countType_falsy countType_label nonEmptyLabels_def)
  qed
qed

lemma nonEmptyLabels_filter:
  "nonEmptyLabels (filter (\<lambda>r. scam_type r \<noteq> None \<and> scam_type r \<noteq> Some '''') rows) =
     nonEmptyLabels rows"
  by (induction rows) (auto simp: nonEmptyLabels_def split: option.splits)

lemma foldl_countType_filter:
  "foldl countType d (filter (\<lambda>r. scam_type r \<noteq> None \<and> scam_type r \<noteq> Some '''') rows) =
     foldl countType d rows"
  by (simp only: foldl_countType_labels nonEmptyLabels_filter)

lemma keys_foldl_countLabel:
  "(a, b) \<in> set (foldl countLabel d ls) \<Longrightarrow> a \<in> fst ` set d \<or> a \<in> set ls"
proof (induction ls arbitrary: d)
  case Nil
  then show ?case by force
next
  case (Cons l ls)
  from Cons.IH [of "countLabel d l"] Cons.prems
  have "a \<in> fst ` set (countLabel d l) \<or> a \<in> set ls" by simp
  moreover have "a \<in> fst ` set (countLabel d l) \<Longrightarrow> a = l \<or> a \<in> fst ` set d"
    unfolding countLabel_def by (auto dest: keys_setProperty)
  ultimately show ?case by auto
qed

lemma nonEmptyLabels_nonempty: "l \<in> set (nonEmptyLabels rows) \<Longrightarrow> l \<noteq> ''''"
  by (simp add: nonEmptyLabels_def)

text \<open>On plain names the object is the list of the labels in the order of their first
  occurrence, each with the number of its occurrences.\<close>

lemma countLabel_plain:
  assumes "plain x"
  shows "countLabel (map (\<lambda>l. (l, Number (count_list xs l))) (firstOccurrences xs)) x =
           map (\<lambda>l. (l, Number (count_list (xs @ [x]) l))) (firstOccurrences (xs @ [x]))"
proof -
  have "x \<noteq> ''__proto__''" "x \<notin> set prototypeNames"
    using assms by (auto simp: plain_def prototypeNames_def)
  then show ?thesis
    by (auto simp: countLabel_def setProperty_def getProperty_def plusOne_def
          map_of_tabulate assign_tabulate firstOccurrences_snoc)
qed

lemma foldl_countLabel:
  "\<forall>l \<in> set ls. plain l \<Longrightarrow>
   foldl countLabel [] ls = map (\<lambda>l. (l, Number (count_list ls l))) (firstOccurrences ls)"
proof (induction ls rule: rev_induct)
  case Nil
  show ?case by simp
next
  case (snoc x xs)
  then have "foldl countLabel [] (xs @ [x]) =
          countLabel (map (\<lambda>l. (l, Number (count_list xs l))) (firstOccurrences xs)) x"
    by simp
  also have "\<dots> = map (\<lambda>l. (l, Number (count_list (xs @ [x]) l))) (firstOccurrences (xs @ [x]))"
    using snoc.prems by (intro countLabel_plain) simp
  finally show ?case .
qed

lemma distribution_plain:
  assumes "\<forall>l \<in> set (nonEmptyLabels rows). plain l"
  shows "map (\<lambda>(type, n). \<lparr>dist_type = type, dist_count = n\<rparr>)
           (entries (foldl countType [] rows)) = grouped (nonEmptyLabels rows)"
proof -
  let ?ls = "nonEmptyLabels rows"
  let ?obj = "map (\<lambda>l. (l, Number (count_list ?ls l))) (firstOccurrences ?ls)"
  have obj: "foldl countType [] rows = ?obj"
    using assms by (simp add: foldl_countType_labels foldl_countLabel)
  have "\<forall>k \<in> fst ` set ?obj. arrayIndex k = None"
    using assms by (auto simp: plain_def)
  then have "entries ?obj = ?obj"
    by (rule entries_no_index)
  then show ?thesis
    by (simp add: obj grouped_def o_def)
qed

lemma getScamTypeDistribution_eq:
  assumes "getUser env = Some u" and "error (store env (scamTypeQuery u)) = None"
  shows "getScamTypeDistribution env s =
           (Inr (map (\<lambda>(type, n). \<lparr>dist_type = type, dist_count = n\<rparr>)
                   (entries (foldl countType []
                      (or_empty (data (store env (scamTypeQuery u))))))),
            s\<lparr>issued := issued s @ [scamTypeQuery u]\<rparr>)"
  using assms by (simp add: getScamTypeDistribution_def)

subsection \<open>The claims\<close>

text \<open>
  C4 says that every distinct label of the labelled rows gets its pair, in the order of
  first occurrence. Four sequences of rows where the code does otherwise:
  \<^item> phishing, the empty label, phishing: the row of the empty label is skipped by
    \<open>if (item.scam_type)\<close>, and the empty label gets no pair;
  \<^item> lottery, 419, lottery: \<open>419\<close> is an array index, and \<open>Object.entries\<close> lists it
    before \<open>lottery\<close>, which occurs first;
  \<^item> \<open>__proto__\<close>, phishing: the write under \<open>__proto__\<close> creates no property, and the
    label gets no pair;
  \<^item> \<open>constructor\<close>: the function inherited under that name is read in the place of a
    count, and the pair carries a string.
\<close>

theorem getScamTypeDistribution_groups_counterexample:
  "fst (getScamTypeDistribution
          (dashboard [labelled ''phishing'', labelled '''', labelled ''phishing'']) start) =
     Inr [\<lparr>dist_type = ''phishing'', dist_count = Number 2\<rparr>]
   \<and> grouped (rowLabels [labelled ''phishing'', labelled '''', labelled ''phishing'']) =
       [\<lparr>dist_type = ''phishing'', dist_count = Number 2\<rparr>,
        \<lparr>dist_type = '''', dist_count = Number 1\<rparr>]
   \<and> fst (getScamTypeDistribution
          (dashboard [labelled ''lottery'', labelled ''419'', labelled ''lottery'']) start) =
       Inr [\<lparr>dist_type = ''419'', dist_count = Number 1\<rparr>,
            \<lparr>dist_type = ''lottery'', dist_count = Number 2\<rparr>]
   \<and> grouped (rowLabels [labelled ''lottery'', labelled ''419'', labelled ''lottery'']) =
       [\<lparr>dist_type = ''lottery'', dist_count = Number 2\<rparr>,
        \<lparr>dist_type = ''419'', dist_count = Number 1\<rparr>]
   \<and> fst (getScamTypeDistribution
          (dashboard [labelled ''__proto__'', labelled ''phishing'']) start) =
       Inr [\<lparr>dist_type = ''phishing'', dist_count = Number 1\<rparr>]
   \<and> grouped (rowLabels [labelled ''__proto__'', labelled ''phishing'']) =
       [\<lparr>dist_type = ''__proto__'', dist_count = Number 1\<rparr>,
        \<lparr>dist_type = ''phishing'', dist_count = Number 1\<rparr>]
   \<and> fst (getScamTypeDistribution (dashboard [labelled ''constructor'']) start) =
       Inr [\<lparr>dist_type = ''constructor'', dist_count = Text\<rparr>]
   \<and> grouped (rowLabels [labelled ''constructor'']) =
       [\<lparr>dist_type = ''constructor'', dist_count = Number 1\<rparr>]"
  by (simp add: getScamTypeDistribution_def countType_def truthy_def getProperty_def
        setProperty_def plusOne_def prototypeNames_def entries_def arrayIndex_def
        isDigit_def toNumber_def grouped_def or_empty_def
        dashboard_def host_def holding_def labelled_def)

text \<open>
  C4, amended. Let the caller be identified and the query succeed, and let the labels of
  the retrieved rows, the empty label apart, be plain names: no array index and no name
  of \<open>Object.prototype\<close>. Then \<open>getScamTypeDistribution\<close> returns one pair per distinct
  non-empty label, in the order in which the labels first occur among the rows and not
  sorted by count or label, each with the number of rows that carry the label; rows
  whose label is empty or \<open>null\<close> get no pair. The rows are the store's answer to the one
  query sent: the rows of \<open>messages\<close> whose \<open>user_id\<close> is the caller's, whose \<open>is_scam\<close>
  is true and whose \<open>scam_type\<close> is not \<open>null\<close>. The witness is the example of the
  specification, A, A, B, and the empty set of rows.
\<close>

theorem getScamTypeDistribution_groups:
  assumes "getUser env = Some u"
    and "error (store env (scamTypeQuery u)) = None"
    and "ls = nonEmptyLabels (or_empty (data (store env (scamTypeQuery u))))"
    and "\<forall>l \<in> set ls. plain l"
  shows "fst (getScamTypeDistribution env s) =
           Inr (map (\<lambda>l. \<lparr>dist_type = l, dist_count = Number (count_list ls l)\<rparr>)
                  (firstOccurrences ls))
       \<and> issued (snd (getScamTypeDistribution env s)) =
           issued s @
             [\<lparr>table = ''messages'', verb = Select ''scam_type'',
               filters = [Eq ''user_id'' (Str (user_id u)), Eq ''is_scam'' (Bool True),
                          NotIsNull ''scam_type'']\<rparr>]"
proof -
  have "fst (getScamTypeDistribution env s) = Inr (grouped ls)"
    using assms by (simp add: getScamTypeDistribution_eq distribution_plain)
  moreover have "issued (snd (getScamTypeDistribution env s)) =
      issued s @
        [\<lparr>table = ''messages'', verb = Select ''scam_type'',
          filters = [Eq ''user_id'' (Str (user_id u)), Eq ''is_scam'' (Bool True),
                     NotIsNull ''scam_type'']\<rparr>]"
    using assms(1,2) by (simp add: getScamTypeDistribution_eq scamTypeQuery_def)
  ultimately show ?thesis by (simp add: grouped_def)
qed

theorem getScamTypeDistribution_groups_witness:
  "getUser (dashboard [labelled ''phishing'', labelled ''phishing'', labelled ''lottery''])
     = Some alice
   \<and> plain ''phishing'' \<and> plain ''lottery''
   \<and> fst (getScamTypeDistribution
          (dashboard [labelled ''phishing'', labelled ''phishing'', labelled ''lottery''])
          start) =
       Inr [\<lparr>dist_type = ''phishing'', dist_count = Number 2\<rparr>,
            \<lparr>dist_type = ''lottery'', dist_count = Number 1\<rparr>]
   \<and> fst (getScamTypeDistribution (dashboard []) start) = Inr []"
  using
    getScamTypeDistribution_groups [of
      "dashboard [labelled ''phishing'', labelled ''phishing'', labelled ''lottery'']"
      alice "[''phishing'', ''phishing'', ''lottery'']" start]
    getScamTypeDistribution_groups [of "dashboard []" alice "[]" start]
  by (simp add: dashboard_def labelled_def host_def holding_def or_empty_def
        nonEmptyLabels_def plain_def arrayIndex_def isDigit_def prototypeNames_def)

text \<open>
  C9. A retrieved row whose label is the empty string, or \<open>null\<close>, is dropped: it leaves
  the object as it is, so that it adds to no count and creates no pair; the result is the
  one computed from the rows with such rows taken out, and no pair carries the empty
  label. The one query sent excludes on the side of the store the \<open>null\<close> labels only, so
  that rows with the empty label are fetched. Where the other labels are plain names,
  the pairs count the rows of the non-empty labels and no other row.
\<close>

theorem getScamTypeDistribution_drops_falsy:
  assumes "getUser env = Some u"
    and "error (store env (scamTypeQuery u)) = None"
    and "data (store env (scamTypeQuery u)) = Some rows"
    and "fst (getScamTypeDistribution env s) = Inr result"
  shows "(\<forall>r d. scam_type r = None \<or> scam_type r = Some '''' \<longrightarrow> countType d r = d)
       \<and> result = map (\<lambda>(l, n). \<lparr>dist_type = l, dist_count = n\<rparr>)
                    (entries (foldl countType []
                       (filter (\<lambda>r. scam_type r \<noteq> None \<and> scam_type r \<noteq> Some '''') rows)))
       \<and> (\<forall>b \<in> set result. dist_type b \<noteq> '''')
       \<and> ((\<forall>l \<in> set (nonEmptyLabels rows). plain l) \<longrightarrow>
            result = map (\<lambda>l. \<lparr>dist_type = l,
                                 dist_count = Number (count_list (nonEmptyLabels rows) l)\<rparr>)
                       (firstOccurrences (nonEmptyLabels rows)))
       \<and> issued (snd (getScamTypeDistribution env s)) =
           issued s @
             [\<lparr>table = ''messages'', verb = Select ''scam_type'',
               filters = [Eq ''user_id'' (Str (user_id u)), Eq ''is_scam'' (Bool True),
                          NotIsNull ''scam_type'']\<rparr>]"
proof -
  let ?obj = "foldl countType [] rows"
  have result: "result = map (\<lambda>(l, n). \<lparr>dist_type = l, dist_count = n\<rparr>) (entries ?obj)"
    using assms by (simp add: getScamTypeDistribution_eq or_empty_def)
  have "\<forall>r d. scam_type r = None \<or> scam_type r = Some '''' \<longrightarrow> countType d r = d"
    using countType_falsy by blast
  moreover have "result = map (\<lambda>(l, n). \<lparr>dist_type = l, dist_count = n\<rparr>)
      (entries (foldl countType []
         (filter (\<lambda>r. scam_type r \<noteq> None \<and> scam_type r \<noteq> Some '''') rows)))"
    by (simp only: result foldl_countType_filter)
  moreover have "\<forall>b \<in> set result. dist_type b \<noteq> ''''"
  proof
    fix b assume "b \<in> set result"
    then obtain l n where "(l, n) \<in> set ?obj" and b: "b = \<lparr>dist_type = l, dist_count = n\<rparr>"
      by (auto simp: result set_entries)
    then have "l \<in> set (nonEmptyLabels rows)"
      using keys_foldl_countLabel [of l n "[]" "nonEmptyLabels rows"]
      by (simp add: foldl_countType_labels)
    then show "dist_type b \<noteq> ''''"
      by (simp add: b nonEmptyLabels_def)
  qed
  moreover have "(\<forall>l \<in> set (nonEmptyLabels rows). plain l) \<longrightarrow>
      result = map (\<lambda>l. \<lparr>dist_type = l,
                           dist_count = Number (count_list (nonEmptyLabels rows) l)\<rparr>)
                 (firstOccurrences (nonEmptyLabels rows))"
    by (simp add: result distribution_plain grouped_def)
  moreover have "issued (snd (getScamTypeDistribution env s)) =
      issued s @
        [\<lparr>table = ''messages'', verb = Select ''scam_type'',
          filters = [Eq ''user_id'' (Str (user_id u)), Eq ''is_scam'' (Bool True),
                     NotIsNull ''scam_type'']\<rparr>]"
    using assms(1,2) by (simp add: getScamTypeDistribution_eq scamTypeQuery_def)
  ultimately show ?thesis by blast
qed

theorem getScamTypeDistribution_drops_falsy_witness:
  "getUser (dashboard [labelled ''phishing'', labelled '''',
                       \<lparr>scam_type = None, created_at = now\<rparr>, labelled ''phishing'']) = Some alice
   \<and> fst (getScamTypeDistribution
          (dashboard [labelled ''phishing'', labelled '''',
                      \<lparr>scam_type = None, created_at = now\<rparr>, labelled ''phishing'']) start) =
       Inr [\<lparr>dist_type = ''phishing'', dist_count = Number 2\<rparr>]
   \<and> dist_type \<lparr>dist_type = ''phishing'', dist_count = Number 2\<rparr> \<noteq> ''''
   \<and> nonEmptyLabels [labelled ''phishing'', labelled '''',
                      \<lparr>scam_type = None, created_at = now\<rparr>, labelled ''phishing''] =
       [''phishing'', ''phishing'']"
  using
    getScamTypeDistribution_drops_falsy [of
      "dashboard [labelled ''phishing'', labelled '''',
                  \<lparr>scam_type = None, created_at = now\<rparr>, labelled ''phishing'']"
      alice
      "[labelled ''phishing'', labelled '''',
        \<lparr>scam_type = None, created_at = now\<rparr>, labelled ''phishing'']"
      start "[\<lparr>dist_type = ''phishing'', dist_count = Number 2\<rparr>]"]
  by (simp add: getScamTypeDistribution_def countType_def truthy_def getProperty_def
        setProperty_def plusOne_def prototypeNames_def entries_def arrayIndex_def
        isDigit_def nonEmptyLabels_def or_empty_def
        dashboard_def host_def holding_def labelled_def)

section \<open>\<open>getDailyDetections\<close>\<close>

subsection \<open>Dates while the zone keeps its offset\<close>

lemma msPerDay_pos: "0 < msPerDay"
  by (simp add: msPerDay_def)

lemma setDate_back_steady:
  assumes "LocalTZA env t True = off"
    and "LocalTZA env (t - n * msPerDay + off) False = off"
  shows "setDate_back env t n = TimeClip (t - n * msPerDay)"
proof -
  have "(Day (t + off) - n) * msPerDay + TimeWithinDay (t + off) = t - n * msPerDay + off"
    by (simp add: Day_def TimeWithinDay_def algebra_simps)
  then show ?thesis
    using assms by (simp add: setDate_back_def LocalTime_def UTC_def Let_def)
qed

lemma Day_shift: "Day (t - n * msPerDay) = Day t - n"
proof -
  have "(t + (- n) * msPerDay) div msPerDay = - n + t div msPerDay"
    using msPerDay_pos by (subst div_mult_self1) auto
  then show ?thesis by (simp add: Day_def)
qed

lemma Day_bounds: "Day t * msPerDay \<le> t \<and> t < (Day t + 1) * msPerDay"
proof -
  define q r where "q = t div msPerDay" and "r = t mod msPerDay"
  have "t = msPerDay * q + r"
    by (simp add: q_def r_def)
  moreover have "0 \<le> r" "r < msPerDay"
    using msPerDay_pos by (simp_all add: r_def)
  moreover have "Day t = q"
    by (simp add: Day_def q_def)
  ultimately show ?thesis
    by (simp add: algebra_simps)
qed

text \<open>Going back \<open>n\<close> days from an instant of the day \<open>today\<close> stays within the range of
  \<open>Date\<close> as long as \<open>today\<close> and the day reached are among the days a \<open>Date\<close> can hold,
  100,000,000 on either side of the epoch.\<close>

lemma TimeClip_in_range:
  assumes "Day t = today" "today < 100000000" "- 100000000 \<le> today - n" "0 \<le> n"
  shows "TimeClip (t - n * msPerDay) = Some (t - n * msPerDay)"
proof -
  have "today * msPerDay \<le> t" "t < (today + 1) * msPerDay"
    using assms(1) Day_bounds [of t] by simp_all
  moreover have "(today + 1) * msPerDay \<le> maxTime"
    using assms(2) by (simp add: msPerDay_def maxTime_def)
  moreover have "- maxTime \<le> (today - n) * msPerDay"
    using assms(3) by (simp add: msPerDay_def maxTime_def)
  moreover have "0 \<le> n * msPerDay"
    using assms(4) by (simp add: msPerDay_def)
  ultimately have "\<bar>t - n * msPerDay\<bar> \<le> maxTime"
    by (simp add: algebra_simps abs_le_iff)
  then show ?thesis by (simp add: TimeClip_def)
qed

text \<open>The instants reached from the day \<open>today\<close> by going back at most \<open>days\<close> days lie
  between the start of the day \<open>today - days\<close> and the end of \<open>today\<close>.\<close>

lemma back_in_window:
  assumes "Day t = today" "0 \<le> n" "n \<le> days"
  shows "(today - days) * msPerDay \<le> t - n * msPerDay
       \<and> t - n * msPerDay < (today + 1) * msPerDay"
proof -
  have t: "today * msPerDay \<le> t" "t < (today + 1) * msPerDay"
    using assms(1) Day_bounds [of t] by simp_all
  have n: "n * msPerDay \<le> days * msPerDay" "0 \<le> n * msPerDay"
    using assms(2,3) msPerDay_pos by (simp_all add: mult_right_mono)
  have "(today - days) * msPerDay = today * msPerDay - days * msPerDay"
    by (simp add: algebra_simps)
  with t n show ?thesis
    by linarith
qed

lemma setDate_back_window:
  assumes "steadyZone env off ((today - days) * msPerDay) ((today + 1) * msPerDay)"
    and "Day t = today" "0 \<le> n" "n \<le> days"
    and "today < 100000000" "- 100000000 \<le> today - days"
  shows "setDate_back env t n = Some (t - n * msPerDay)"
proof -
  have here: "(today - days) * msPerDay \<le> t \<and> t < (today + 1) * msPerDay"
    using back_in_window [of t today 0 days] assms by simp
  have there: "(today - days) * msPerDay \<le> t - n * msPerDay
             \<and> t - n * msPerDay < (today + 1) * msPerDay"
    using back_in_window [of t today n days] assms by simp
  have "LocalTZA env t True = off"
    using assms(1) here by (simp add: steadyZone_def)
  moreover have "LocalTZA env (t - n * msPerDay + off) False = off"
    using assms(1) there by (simp add: steadyZone_def)
  ultimately have "setDate_back env t n = TimeClip (t - n * msPerDay)"
    by (rule setDate_back_steady)
  then show ?thesis
    using assms by (simp add: TimeClip_in_range [of t today n])
qed

subsection \<open>The count map and the loop\<close>

lemma countDate_fold:
  "or_zero (foldl countDate m rows d) = or_zero (m d) + length (eventsOn d rows)"
  by (induction rows arbitrary: m) (auto simp: countDate_def eventsOn_def Let_def)

lemma countDate_dom:
  "foldl countDate m rows d = None \<longleftrightarrow> m d = None \<and> eventsOn d rows = []"
  by (induction rows arbitrary: m) (auto simp: countDate_def eventsOn_def Let_def)

lemma fill_eq:
  "steadyZone env off ((today - days) * msPerDay) ((today + 1) * msPerDay) \<Longrightarrow>
   \<forall>k. reads s \<le> k \<and> k < reads s + nat (i + 1) \<longrightarrow> Day (clock env k) = today \<Longrightarrow>
   today < 100000000 \<Longrightarrow> - 100000000 \<le> today - days \<Longrightarrow> - 1 \<le> i \<Longrightarrow> i \<le> days \<Longrightarrow>
   fill env m i acc s =
     (Inr (acc @ map (bucket m) [today - i..today]), s\<lparr>reads := reads s + nat (i + 1)\<rparr>)"
proof (induction env m i acc s rule: fill.induct)
  case (1 env m i acc s)
  show ?case
  proof (cases "0 \<le> i")
    case False
    with "1.prems" have "i = - 1" by simp
    then show ?thesis
      by (subst fill.simps) simp
  next
    case True
    define t where "t = clock env (reads s)"
    define s1 where "s1 = s\<lparr>reads := Suc (reads s)\<rparr>"
    have nd: "new_Date env s = (t, s1)"
      by (simp add: new_Date_def t_def s1_def)
    have today: "Day t = today"
      using "1.prems"(2) True by (simp add: t_def)
    have clip: "setDate_back env t i = Some (t - i * msPerDay)"
      using "1.prems" True today
      by (intro setDate_back_window [of env off today days]) simp_all
    have iso: "isoDate (setDate_back env t i) = (Inr (today - i) :: 'b failure + int)"
      using today by (simp add: clip isoDate_def Day_shift)
    have later: "\<forall>k. reads s1 \<le> k \<and> k < reads s1 + nat (i - 1 + 1) \<longrightarrow>
                   Day (clock env k) = today"
    proof (intro allI impI)
      fix k assume "reads s1 \<le> k \<and> k < reads s1 + nat (i - 1 + 1)"
      then have "reads s \<le> k \<and> k < reads s + nat (i + 1)"
        using True by (simp add: s1_def nat_add_distrib)
      then show "Day (clock env k) = today"
        using "1.prems"(2) by blast
    qed
    have IH: "fill env m (i - 1) (acc @ [bucket m (today - i)]) s1 =
              (Inr ((acc @ [bucket m (today - i)]) @ map (bucket m) [today - (i - 1)..today]),
               s1\<lparr>reads := reads s1 + nat (i - 1 + 1)\<rparr>)"
      using "1.IH" [OF True refl nd [symmetric] iso "1.prems"(1) later] "1.prems" True
      by (simp add: bucket_def)
    have upto: "[today - i..today] = (today - i) # [today - (i - 1)..today]"
      using True by (subst upto_rec1) (simp_all add: algebra_simps)
    have "fill env m i acc s = fill env m (i - 1) (acc @ [bucket m (today - i)]) s1"
      using True by (subst fill.simps) (simp add: nd iso bucket_def)
    also note IH
    finally show ?thesis
      using True by (simp add: upto s1_def nat_add_distrib)
  qed
qed

lemma getDailyDetections_eq:
  assumes "getUser env = Some u"
    and zone: "steadyZone env off ((today - days) * msPerDay) ((today + 1) * msPerDay)"
    and clk: "\<forall>k. reads s \<le> k \<and> k \<le> reads s + nat days \<longrightarrow> Day (clock env k) = today"
    and "today < 100000000" and "- 100000000 \<le> today - days" and "0 \<le> days"
    and ok: "error (store env (dailyQuery u (clock env (reads s) - days * msPerDay))) = None"
    and rows: "rows = or_empty (data (store env
                 (dailyQuery u (clock env (reads s) - days * msPerDay))))"
  shows "getDailyDetections env days s =
           (Inr (map (bucket (foldl countDate Map.empty rows)) [today - (days - 1)..today]),
            s\<lparr>reads := Suc (reads s) + nat days,
              issued := issued s @ [dailyQuery u (clock env (reads s) - days * msPerDay)]\<rparr>)"
proof -
  let ?t = "clock env (reads s)"
  let ?q = "dailyQuery u (?t - days * msPerDay)"
  let ?s2 = "s\<lparr>reads := Suc (reads s), issued := issued s @ [?q]\<rparr>"
  have "Day ?t = today"
    using clk by simp
  then have cutoff: "setDate_back env ?t days = Some (?t - days * msPerDay)"
    using assms by (intro setDate_back_window [of env off today days]) simp_all
  have later: "\<forall>k. reads ?s2 \<le> k \<and> k < reads ?s2 + nat (days - 1 + 1) \<longrightarrow>
                 Day (clock env k) = today"
    using clk by simp
  have "fill env (foldl countDate Map.empty rows) (days - 1) [] ?s2 =
          (Inr ([] @ map (bucket (foldl countDate Map.empty rows)) [today - (days - 1)..today]),
           ?s2\<lparr>reads := reads ?s2 + nat (days - 1 + 1)\<rparr>)"
    using zone later assms(4,5,6) by (intro fill_eq [of env off today days]) simp_all
  moreover have "getDailyDetections env days s =
                   fill env (foldl countDate Map.empty rows) (days - 1) [] ?s2"
    using assms(1) ok rows
    by (simp add: getDailyDetections_def new_Date_def cutoff toISOString_def)
  ultimately show ?thesis
    using \<open>0 \<le> days\<close> by simp
qed

lemma length_filter_either:
  assumes "\<And>x. \<not> (P x \<and> Q x)"
  shows "length (filter (\<lambda>x. P x \<or> Q x) xs) = length (filter P xs) + length (filter Q xs)"
  using assms by (induction xs) auto

lemma sum_eventsOn:
  "distinct ds \<Longrightarrow>
   sum_list (map (\<lambda>d. length (eventsOn d rows)) ds) =
     length (filter (\<lambda>r. Day (created_at r) \<in> set ds) rows)"
proof (induction ds)
  case Nil
  show ?case by simp
next
  case (Cons d ds)
  have "length (filter (\<lambda>r. Day (created_at r) = d \<or> Day (created_at r) \<in> set ds) rows) =
          length (filter (\<lambda>r. Day (created_at r) = d) rows) +
          length (filter (\<lambda>r. Day (created_at r) \<in> set ds) rows)"
    using Cons.prems by (intro length_filter_either) auto
  with Cons show ?case
    by (simp add: eventsOn_def)
qed

subsection \<open>The claims\<close>

text \<open>
  C10. Without an identified caller \<open>getDailyDetections\<close> returns the empty sequence for
  every value of \<open>days\<close>; it throws nothing and leaves the state as it found it: no query
  has been sent and the clock has not been read.
\<close>

theorem getDailyDetections_no_caller:
  "getUser env = None \<Longrightarrow> getDailyDetections env days s = (Inr [], s)"
  by (simp add: getDailyDetections_def)

theorem getDailyDetections_no_caller_witness:
  "getUser (host None down now ist) = None \<and>
   getDailyDetections (host None down now ist) 7 start = (Inr [], start) \<and>
   length ([] :: DailyDetection list) \<noteq> nat 7"
  using getDailyDetections_no_caller [of "host None down now ist" 7 start]
  by (simp add: host_def)

text \<open>
  C7. With an identified caller, a failure of the one query of \<open>getScamTypeDistribution\<close>,
  or of the one query of \<open>getDailyDetections\<close>, is thrown as it came: the call ends with the
  store's error, no result, and the query has been sent once. (\<open>getDailyDetections\<close> sends
  its query once the cutoff \<open>startDate\<close> is a valid date.)
\<close>

theorem store_failure_propagates:
  "(getUser env = Some u \<and> error (store env (scamTypeQuery u)) = Some e \<longrightarrow>
      getScamTypeDistribution env s =
        (Inl (StoreError e), s\<lparr>issued := issued s @ [scamTypeQuery u]\<rparr>))
   \<and> (getUser env = Some u \<and> setDate_back env (clock env (reads s)) days = Some startDate
        \<and> error (store env (dailyQuery u startDate)) = Some e' \<longrightarrow>
      getDailyDetections env days s =
        (Inl (StoreError e'),
         s\<lparr>reads := Suc (reads s), issued := issued s @ [dailyQuery u startDate]\<rparr>))"
  by (simp add: getScamTypeDistribution_def getDailyDetections_def new_Date_def
        toISOString_def)

theorem store_failure_propagates_witness:
  "getUser (host (Some alice) down now ist) = Some alice
   \<and> error (store (host (Some alice) down now ist) (scamTypeQuery alice)) = Some ''connection lost''
   \<and> getScamTypeDistribution (host (Some alice) down now ist) start =
       (Inl (StoreError ''connection lost''), start\<lparr>issued := [scamTypeQuery alice]\<rparr>)
   \<and> setDate_back (host (Some alice) down now ist) now 7 = Some 1704708000000
   \<and> error (store (host (Some alice) down now ist) (dailyQuery alice 1704708000000)) =
       Some ''connection lost''
   \<and> getDailyDetections (host (Some alice) down now ist) 7 start =
       (Inl (StoreError ''connection lost''),
        start\<lparr>reads := 1, issued := [dailyQuery alice 1704708000000]\<rparr>)"
  using store_failure_propagates [of "host (Some alice) down now ist" alice
      "''connection lost''" start 7 1704708000000 "''connection lost''"]
  by (simp add: example_defs date_defs)

text \<open>
  C1 says that \<open>getDailyDetections(days)\<close> returns \<open>days\<close> buckets, one per UTC date up
  to today, each date once, for every \<open>days \<ge> 0\<close> and whatever caller the function
  finds. Three calls where the code does otherwise:
  \<^item> with no caller it returns no bucket at all, for \<open>days = 3\<close> as for any other: this
    is the guard \<open>if (!user) return []\<close>;
  \<^item> in a zone with summer time, at 01:30 local time on 1 April, when the UTC date is
    still 31 March, \<open>days = 3\<close> gives the dates 30 March, 31 March and 31 March again,
    and 29 March not at all. This is a defect of the code: \<open>setDate\<close> and \<open>getDate\<close>
    go back whole days of local time and keep the local time of day, \<open>toISOString\<close>
    writes the UTC date, and before the change of 31 March the same local time of day
    lies one hour later in UTC, past midnight;
  \<^item> for \<open>days = 200000000\<close> the cutoff lies before the first instant a \<open>Date\<close> can
    hold: \<open>startDate\<close> is an invalid date, \<open>startDate.toISOString()\<close> throws a
    \<open>RangeError\<close>, and the call ends before any query is sent.
\<close>

theorem getDailyDetections_buckets_counterexample:
  "fst (getDailyDetections (host None (holding []) now ist) 3 start) = Inr []
   \<and> length ([] :: DailyDetection list) \<noteq> nat 3
   \<and> fst (getDailyDetections (summerHost []) 3 start) =
       Inr [\<lparr>date = 19812, detections = 0\<rparr>, \<lparr>date = 19813, detections = 0\<rparr>,
            \<lparr>date = 19813, detections = 0\<rparr>]
   \<and> Day night = 19813
   \<and> [19812, 19813, 19813] \<noteq> [19813 - (3 - 1)..19813]
   \<and> getDailyDetections (dashboard []) 200000000 start =
       (Inl RangeError, start\<lparr>reads := 1\<rparr>)"
  by (simp add: getDailyDetections_def fill.simps or_empty_def example_defs date_defs)

text \<open>
  C1, amended. With no identified caller, \<open>getDailyDetections(days)\<close> returns the empty
  sequence. With an identified caller \<open>u\<close> it sends one query, for the rows of
  \<open>messages\<close> whose \<open>user_id\<close> is the caller's, whose \<open>is_scam\<close> is true and whose
  \<open>created_at\<close> is not before the cutoff, the instant \<open>days\<close> days before now. Let that
  query succeed, let the local zone keep one offset from the start of the day of the
  cutoff to the end of today, let the clock stay within the UTC day \<open>today\<close> for the
  readings of the call, and let \<open>today\<close> and the day of the cutoff, \<open>today - days\<close>, be
  days that a \<open>Date\<close> can hold. Then for every \<open>days \<ge> 0\<close> the call returns exactly
  \<open>days\<close> buckets, whose dates are the UTC dates from \<open>today - (days - 1)\<close> to \<open>today\<close>,
  one after the other in ascending order, each once; the count of a bucket is the entry
  of its date in the count map of the retrieved scam-flagged events, or zero when the map
  has none, which is the number of retrieved events of that date. Where the offset of
  the zone changes between the cutoff and now, the statement promises nothing.
\<close>

theorem getDailyDetections_buckets:
  "(getUser env = None \<longrightarrow> getDailyDetections env days s = (Inr [], s))
   \<and> (getUser env = Some u \<and> 0 \<le> days
        \<and> steadyZone env off ((today - days) * msPerDay) ((today + 1) * msPerDay)
        \<and> (\<forall>k. reads s \<le> k \<and> k \<le> reads s + nat days \<longrightarrow> Day (clock env k) = today)
        \<and> today < 100000000 \<and> - 100000000 \<le> today - days
        \<and> cutoff = clock env (reads s) - days * msPerDay
        \<and> q = \<lparr>table = ''messages'', verb = Select ''created_at'',
                 filters = [Eq ''user_id'' (Str (user_id u)), Eq ''is_scam'' (Bool True),
                            Gte ''created_at'' (Instant cutoff)]\<rparr>
        \<and> error (store env q) = None
        \<and> rows = or_empty (data (store env q))
        \<and> detectionsByDate = foldl countDate Map.empty rows
      \<longrightarrow> issued (snd (getDailyDetections env days s)) = issued s @ [q]
          \<and> (\<exists>result. fst (getDailyDetections env days s) = Inr result
                \<and> length result = nat days
                \<and> map date result = [today - (days - 1)..today]
                \<and> sorted_wrt (<) (map date result) \<and> distinct (map date result)
                \<and> (\<forall>b \<in> set result.
                      detections b = or_zero (detectionsByDate (date b))
                      \<and> (detectionsByDate (date b) = None \<longrightarrow> detections b = 0)
                      \<and> detections b = length (eventsOn (date b) rows))))"
proof (intro conjI impI)
  assume "getUser env = None"
  then show "getDailyDetections env days s = (Inr [], s)"
    by (simp add: getDailyDetections_def)
next
  assume h: "getUser env = Some u \<and> 0 \<le> days
        \<and> steadyZone env off ((today - days) * msPerDay) ((today + 1) * msPerDay)
        \<and> (\<forall>k. reads s \<le> k \<and> k \<le> reads s + nat days \<longrightarrow> Day (clock env k) = today)
        \<and> today < 100000000 \<and> - 100000000 \<le> today - days
        \<and> cutoff = clock env (reads s) - days * msPerDay
        \<and> q = \<lparr>table = ''messages'', verb = Select ''created_at'',
                 filters = [Eq ''user_id'' (Str (user_id u)), Eq ''is_scam'' (Bool True),
                            Gte ''created_at'' (Instant cutoff)]\<rparr>
        \<and> error (store env q) = None
        \<and> rows = or_empty (data (store env q))
        \<and> detectionsByDate = foldl countDate Map.empty rows"
  then have "cutoff = clock env (reads s) - days * msPerDay"
    and "q = \<lparr>table = ''messages'', verb = Select ''created_at'',
               filters = [Eq ''user_id'' (Str (user_id u)), Eq ''is_scam'' (Bool True),
                          Gte ''created_at'' (Instant cutoff)]\<rparr>"
    by blast+
  then have q: "q = dailyQuery u (clock env (reads s) - days * msPerDay)"
    by (simp add: dailyQuery_def)
  let ?result = "map (bucket detectionsByDate) [today - (days - 1)..today]"
  from h have "error (store env q) = None" and "rows = or_empty (data (store env q))"
    by blast+
  then have ok: "error (store env (dailyQuery u (clock env (reads s) - days * msPerDay))) = None"
    and rows: "rows = or_empty (data (store env
                 (dailyQuery u (clock env (reads s) - days * msPerDay))))"
    by (simp_all only: q)
  have "getDailyDetections env days s =
      (Inr (map (bucket (foldl countDate Map.empty rows)) [today - (days - 1)..today]),
       s\<lparr>reads := Suc (reads s) + nat days,
         issued := issued s @ [dailyQuery u (clock env (reads s) - days * msPerDay)]\<rparr>)"
    using h ok rows by (intro getDailyDetections_eq [of env u off today days s rows]) blast+
  then have eq: "getDailyDetections env days s =
      (Inr ?result, s\<lparr>reads := Suc (reads s) + nat days, issued := issued s @ [q]\<rparr>)"
    using h by (simp only: q [symmetric])
  show "issued (snd (getDailyDetections env days s)) = issued s @ [q]"
    by (simp add: eq)
  have "fst (getDailyDetections env days s) = Inr ?result"
    by (simp add: eq)
  moreover have "length ?result = nat days"
    using h by simp
  moreover have dates: "map date ?result = [today - (days - 1)..today]"
    by (simp add: bucket_def o_def)
  moreover have "sorted_wrt (<) (map date ?result)" "distinct (map date ?result)"
    by (simp_all only: dates sorted_wrt_upto distinct_upto)
  moreover have "\<forall>b \<in> set ?result.
      detections b = or_zero (detectionsByDate (date b))
      \<and> (detectionsByDate (date b) = None \<longrightarrow> detections b = 0)
      \<and> detections b = length (eventsOn (date b) rows)"
    using h by (auto simp: bucket_def countDate_fold countDate_dom)
  ultimately show "\<exists>result. fst (getDailyDetections env days s) = Inr result
      \<and> length result = nat days
      \<and> map date result = [today - (days - 1)..today]
      \<and> sorted_wrt (<) (map date result) \<and> distinct (map date result)
      \<and> (\<forall>b \<in> set result.
            detections b = or_zero (detectionsByDate (date b))
            \<and> (detectionsByDate (date b) = None \<longrightarrow> detections b = 0)
            \<and> detections b = length (eventsOn (date b) rows))"
    by blast
qed

lemma winterHost_steady:
  "steadyZone (winterHost rows) 3600000 ((19737 - 3) * msPerDay) ((19737 + 1) * msPerDay)"
  by (auto simp: steadyZone_def winterHost_def summerTime_def msPerDay_def)

theorem getDailyDetections_buckets_witness:
  "getUser (host None down now ist) = None
   \<and> getDailyDetections (host None down now ist) 3 start = (Inr [], start)
   \<and> getUser (winterHost twoEvents) = Some alice
   \<and> steadyZone (winterHost twoEvents) 3600000 ((19737 - 3) * msPerDay)
        ((19737 + 1) * msPerDay)
   \<and> (\<forall>k. Day (clock (winterHost twoEvents) k) = 19737)
   \<and> error (store (winterHost twoEvents)
        \<lparr>table = ''messages'', verb = Select ''created_at'',
         filters = [Eq ''user_id'' (Str ''alice''), Eq ''is_scam'' (Bool True),
                    Gte ''created_at'' (Instant (now - 3 * msPerDay))]\<rparr>) = None
   \<and> map (\<lambda>r. Day (created_at r)) twoEvents = [19735, 19737]
   \<and> getDailyDetections (winterHost twoEvents) 3 start =
       (Inr [\<lparr>date = 19735, detections = 1\<rparr>, \<lparr>date = 19736, detections = 0\<rparr>,
             \<lparr>date = 19737, detections = 1\<rparr>],
        start\<lparr>reads := 4,
          issued := [\<lparr>table = ''messages'', verb = Select ''created_at'',
                      filters = [Eq ''user_id'' (Str ''alice''), Eq ''is_scam'' (Bool True),
                                 Gte ''created_at'' (Instant (now - 3 * msPerDay))]\<rparr>]\<rparr>)"
  using
    getDailyDetections_buckets [where env = "host None down now ist" and days = 3
      and s = start]
    getDailyDetections_buckets [where env = "winterHost twoEvents" and days = 3
      and s = start and u = alice and off = 3600000 and today = 19737
      and cutoff = "now - 3 * msPerDay"
      and q = "\<lparr>table = ''messages'', verb = Select ''created_at'',
                filters = [Eq ''user_id'' (Str ''alice''), Eq ''is_scam'' (Bool True),
                           Gte ''created_at'' (Instant (now - 3 * msPerDay))]\<rparr>"
      and rows = twoEvents and detectionsByDate = "foldl countDate Map.empty twoEvents"]
    winterHost_steady [of twoEvents]
  by (simp add: getDailyDetections_def fill.simps countDate_def or_empty_def dailyQuery_def
        example_defs date_defs)

text \<open>
  C3 says that the counts of the buckets add up to the number of events retrieved. Two
  calls where they do not:
  \<^item> the cutoff of the query is the instant \<open>days\<close> days before now, and the first bucket
    is the date \<open>days - 1\<close> days before today: an event of the day before the first
    bucket and later in the day than the cutoff is retrieved and counted in no bucket.
    Here now is 15 January 2024 (day 19737), 10:00 UTC, \<open>days\<close> is 1, the cutoff is
    14 January, 10:00 UTC, and the event is of 14 January, 18:00 UTC, far from any
    midnight;
  \<^item> in the zone with summer time, at 01:30 local time on 1 April, the date 31 March has
    two buckets for \<open>days = 3\<close>, and the one event retrieved, of noon on 31 March, is
    counted in both. This is the defect of the code described for C1.
\<close>

theorem getDailyDetections_sum_counterexample:
  "getDailyDetections (dashboard lateEvent) 1 start =
     (Inr [\<lparr>date = 19737, detections = 0\<rparr>],
      start\<lparr>reads := 2, issued := [dailyQuery alice (now - 1 * msPerDay)]\<rparr>)
   \<and> data (store (dashboard lateEvent) (dailyQuery alice (now - 1 * msPerDay))) = Some lateEvent
   \<and> filter (\<lambda>r. now - 1 * msPerDay \<le> created_at r) lateEvent = lateEvent
   \<and> sum_list (map detections [\<lparr>date = 19737, detections = 0\<rparr>]) \<noteq> length lateEvent
   \<and> fst (getDailyDetections (summerHost noonEvent) 3 start) =
       Inr [\<lparr>date = 19812, detections = 0\<rparr>, \<lparr>date = 19813, detections = 1\<rparr>,
            \<lparr>date = 19813, detections = 1\<rparr>]
   \<and> sum_list (map detections
         [\<lparr>date = 19812, detections = 0\<rparr>, \<lparr>date = 19813, detections = 1\<rparr>,
          \<lparr>date = 19813, detections = 1\<rparr>]) \<noteq> length noonEvent"
  by (simp add: getDailyDetections_def fill.simps countDate_def or_empty_def
        example_defs date_defs)

text \<open>
  C3, amended. Under the conditions of the amended C1 (an identified caller, the query
  for the caller's scam-flagged messages created at or after the cutoff answered without
  error, a zone that keeps its offset from the day of the cutoff to the end of today, a
  clock within the UTC day \<open>today\<close>, dates that a \<open>Date\<close> can hold), for every
  \<open>days \<ge> 0\<close> the counts of the buckets add up to the number of the scam-flagged events
  retrieved by that query whose UTC date is one of the dates of the buckets, from
  \<open>today - (days - 1)\<close> to \<open>today\<close>. The retrieved events of other dates, those of the
  day of the cutoff and those after today, are counted in no bucket.
\<close>

theorem getDailyDetections_sum:
  assumes "getUser env = Some u" and "0 \<le> days"
    and "steadyZone env off ((today - days) * msPerDay) ((today + 1) * msPerDay)"
    and "\<forall>k. reads s \<le> k \<and> k \<le> reads s + nat days \<longrightarrow> Day (clock env k) = today"
    and "today < 100000000" and "- 100000000 \<le> today - days"
    and "cutoff = clock env (reads s) - days * msPerDay"
    and "q = \<lparr>table = ''messages'', verb = Select ''created_at'',
               filters = [Eq ''user_id'' (Str (user_id u)), Eq ''is_scam'' (Bool True),
                          Gte ''created_at'' (Instant cutoff)]\<rparr>"
    and "error (store env q) = None"
    and "rows = or_empty (data (store env q))"
  shows "issued (snd (getDailyDetections env days s)) = issued s @ [q]
      \<and> (\<exists>result. fst (getDailyDetections env days s) = Inr result
            \<and> sum_list (map detections result) =
                length (filter (\<lambda>r. today - (days - 1) \<le> Day (created_at r)
                                    \<and> Day (created_at r) \<le> today) rows))"
proof -
  let ?m = "foldl countDate Map.empty rows"
  let ?ds = "[today - (days - 1)..today]"
  have q: "q = dailyQuery u (clock env (reads s) - days * msPerDay)"
    using assms(7,8) by (simp add: dailyQuery_def)
  have "getDailyDetections env days s =
      (Inr (map (bucket ?m) ?ds),
       s\<lparr>reads := Suc (reads s) + nat days,
         issued := issued s @ [dailyQuery u (clock env (reads s) - days * msPerDay)]\<rparr>)"
    using assms(1-6,9,10) unfolding q
    by (intro getDailyDetections_eq [of env u off today days s rows]) blast+
  then have eq: "getDailyDetections env days s =
      (Inr (map (bucket ?m) ?ds),
       s\<lparr>reads := Suc (reads s) + nat days, issued := issued s @ [q]\<rparr>)"
    by (simp only: q [symmetric])
  have "sum_list (map detections (map (bucket ?m) ?ds)) =
          sum_list (map (\<lambda>d. length (eventsOn d rows)) ?ds)"
    by (simp add: bucket_def o_def countDate_fold)
  moreover have "sum_list (map (\<lambda>d. length (eventsOn d rows)) ?ds) =
                   length (filter (\<lambda>r. Day (created_at r) \<in> set ?ds) rows)"
    by (rule sum_eventsOn) simp
  ultimately show ?thesis
    by (simp add: eq)
qed

theorem getDailyDetections_sum_witness:
  "getUser (winterHost threeEvents) = Some alice
   \<and> steadyZone (winterHost threeEvents) 3600000 ((19737 - 3) * msPerDay)
        ((19737 + 1) * msPerDay)
   \<and> (\<forall>k. Day (clock (winterHost threeEvents) k) = 19737)
   \<and> error (store (winterHost threeEvents)
        \<lparr>table = ''messages'', verb = Select ''created_at'',
         filters = [Eq ''user_id'' (Str ''alice''), Eq ''is_scam'' (Bool True),
                    Gte ''created_at'' (Instant (now - 3 * msPerDay))]\<rparr>) = None
   \<and> filter (\<lambda>r. now - 3 * msPerDay \<le> created_at r) threeEvents = threeEvents
   \<and> map (\<lambda>r. Day (created_at r)) threeEvents = [19734, 19735, 19737]
   \<and> fst (getDailyDetections (winterHost threeEvents) 3 start) =
       Inr [\<lparr>date = 19735, detections = 1\<rparr>, \<lparr>date = 19736, detections = 0\<rparr>,
            \<lparr>date = 19737, detections = 1\<rparr>]
   \<and> length (filter (\<lambda>r. 19737 - (3 - 1) \<le> Day (created_at r) \<and> Day (created_at r) \<le> 19737)
        threeEvents) = 2"
  using
    getDailyDetections_sum [where env = "winterHost threeEvents" and days = 3
      and s = start and u = alice and off = 3600000 and today = 19737
      and cutoff = "now - 3 * msPerDay"
      and q = "\<lparr>table = ''messages'', verb = Select ''created_at'',
                filters = [Eq ''user_id'' (Str ''alice''), Eq ''is_scam'' (Bool True),
                           Gte ''created_at'' (Instant (now - 3 * msPerDay))]\<rparr>"
      and rows = threeEvents]
    winterHost_steady [of threeEvents]
  by (simp add: getDailyDetections_def fill.simps countDate_def or_empty_def dailyQuery_def
        example_defs date_defs)

end
